theory Spec2Isabelle
  imports Main "HOL-Library.Sublist"
begin

section \<open>The CPH50 charge-control worker (src/src/index.ts)\<close>

text \<open>
  The worker is one TypeScript module: \<open>fetchWithRetry\<close> (bounded retry with
  exponential backoff), \<open>sendAlert\<close> (best-effort mail), \<open>performChargeFlow\<close>
  (authenticate, then start a session), \<open>getLocalHour\<close>, and the two exported entry
  points \<open>scheduled\<close> and \<open>fetch\<close>.

  Everything the module does to the outside world (an outgoing \<open>fetch\<close>, a
  \<open>setTimeout\<close> delay, a \<open>console.error\<close>) is recorded in a trace of events, in
  the order it happens. An \<open>async\<close> function is a computation from the trace so far to
  a result and the extended trace; a rejected promise or a \<open>throw\<close> is the result
  \<open>Inl\<close> of the thrown value.
\<close>

subsection \<open>JavaScript values the module handles\<close>

text \<open>
  A thrown value: an \<open>Error\<close> instance with its name and message, or any other value,
  kept by what \<open>String(value)\<close> gives for it.
\<close>

datatype thrown = ErrorObj string string | OtherValue string

text \<open>\<open>String(err)\<close>: \<open>Error.prototype.toString\<close> for an \<open>Error\<close> instance.\<close>

fun String_thrown :: "thrown \<Rightarrow> string" where
  "String_thrown (ErrorObj name msg) =
     (if name = [] then msg else if msg = [] then name else name @ '': '' @ msg)"
| "String_thrown (OtherValue s) = s"

text \<open>\<open>String(n)\<close> and \<open>`${n}`\<close> for a non-negative and for any integer.\<close>

definition digit_char :: "nat \<Rightarrow> char" where
  "digit_char d = ''0123456789'' ! d"

fun String_nat :: "nat \<Rightarrow> string" where
  "String_nat n =
     (if n < 10 then [digit_char n] else String_nat (n div 10) @ [digit_char (n mod 10)])"

declare String_nat.simps [simp del]

definition String_int :: "int \<Rightarrow> string" where
  "String_int i = (if i < 0 then CHR ''-'' # String_nat (nat (- i)) else String_nat (nat i))"

text \<open>
  A JSON value, as handed to \<open>JSON.stringify\<close>. An object lists its members in
  insertion order; a member whose value is \<open>undefined\<close> is left out when the object
  is built (\<open>json_member\<close> below), as \<open>JSON.stringify\<close> drops it.
\<close>

datatype json =
    JNull
  | JBool bool
  | JNum int
  | JStr string
  | JArr "json list"
  | JObj "(string \<times> json) list"

definition json_member :: "string \<Rightarrow> json option \<Rightarrow> (string \<times> json) list" where
  "json_member k v = (case v of None \<Rightarrow> [] | Some j \<Rightarrow> [(k, j)])"

text \<open>
  \<open>JSON.stringify(value)\<close> without indentation, where the module puts its result into
  a message. A string is quoted as ECMAScript's \<open>QuoteJSONString\<close> does.
\<close>

definition hex_char :: "nat \<Rightarrow> char" where
  "hex_char d = ''0123456789abcdef'' ! d"

definition quote_char :: "char \<Rightarrow> string" where
  "quote_char c =
     (if c = CHR 0x22 then [CHR 0x5C, CHR 0x22]
      else if c = CHR 0x5C then [CHR 0x5C, CHR 0x5C]
      else if c = CHR 0x08 then [CHR 0x5C, CHR ''b'']
      else if c = CHR 0x0C then [CHR 0x5C, CHR ''f'']
      else if c = CHR 0x0A then [CHR 0x5C, CHR ''n'']
      else if c = CHR 0x0D then [CHR 0x5C, CHR ''r'']
      else if c = CHR 0x09 then [CHR 0x5C, CHR ''t'']
      else if (of_char c :: nat) < 32
        then [CHR 0x5C, CHR ''u'', CHR ''0'', CHR ''0'',
              hex_char (of_char c div 16), hex_char (of_char c mod 16)]
      else [c])"

definition quote_string :: "string \<Rightarrow> string" where
  "quote_string s = [CHR 0x22] @ concat (map quote_char s) @ [CHR 0x22]"

fun JSON_stringify :: "json \<Rightarrow> string"
  and stringify_elements :: "json list \<Rightarrow> string"
  and stringify_members :: "(string \<times> json) list \<Rightarrow> string" where
  "JSON_stringify JNull = ''null''"
| "JSON_stringify (JBool b) = (if b then ''true'' else ''false'')"
| "JSON_stringify (JNum n) = String_int n"
| "JSON_stringify (JStr s) = quote_string s"
| "JSON_stringify (JArr xs) = ''['' @ stringify_elements xs @ '']''"
| "JSON_stringify (JObj ms) = ''{'' @ stringify_members ms @ ''}''"
| "stringify_elements [] = []"
| "stringify_elements [x] = JSON_stringify x"
| "stringify_elements (x # y # ys) = JSON_stringify x @ '','' @ stringify_elements (y # ys)"
| "stringify_members [] = []"
| "stringify_members [(k, v)] = quote_string k @ '':'' @ JSON_stringify v"
| "stringify_members ((k, v) # m # ms) =
     quote_string k @ '':'' @ JSON_stringify v @ '','' @ stringify_members (m # ms)"

subsection \<open>Requests, responses and the outside world\<close>

text \<open>
  The body of an outgoing request: \<open>URLSearchParams(...).toString()\<close> is kept as the
  list of its name/value pairs, \<open>JSON.stringify(payload)\<close> as the payload. The options
  of a \<open>fetch\<close> call follow; \<open>http_method\<close> is the option \<open>method\<close>.
\<close>

datatype RequestBody = FormBody "(string \<times> string) list" | JsonBody json

record RequestInit =
  http_method :: string
  headers :: "(string \<times> string) list"
  body :: RequestBody
  redirect :: "string option"

text \<open>
  A member of a parsed JSON object: absent, \<open>null\<close>, or a value. Reading an absent
  member gives \<open>undefined\<close>; \<open>undefined\<close> and \<open>null\<close> behave alike under \<open>||\<close>,
  \<open>!\<close> and \<open>?.\<close> (\<open>defined\<close> is the value, if there is one), and differ when
  the member is serialised again: \<open>JSON.stringify\<close> drops \<open>undefined\<close> and writes
  \<open>null\<close>.
\<close>

datatype 'a member = Absent | Null | Present 'a

definition defined :: "'a member \<Rightarrow> 'a option" where
  "defined m = (case m of Absent \<Rightarrow> None | Null \<Rightarrow> None | Present v \<Rightarrow> Some v)"

definition member_json :: "string \<Rightarrow> json member \<Rightarrow> (string \<times> json) list" where
  "member_json k m =
     (case m of Absent \<Rightarrow> [] | Null \<Rightarrow> [(k, JNull)] | Present j \<Rightarrow> [(k, j)])"

text \<open>
  What \<open>.json()\<close> of a vendor response resolves to: the value as it was parsed
  (\<open>parsed\<close>), which is what \<open>JSON.stringify\<close> writes back when the module echoes
  the reply, and the members the module reads from it. The module reads them through the
  interfaces \<open>AuthResponse\<close> and \<open>ChargerListResponse\<close>; both have optional fields
  only and the casts are unchecked, so one record carries the fields of both (and
  \<open>error\<close>, here \<open>json_error\<close>, which the discovery route reads as well; \<open>id'\<close>
  is the field \<open>id\<close>). A member that has a value has it of the type the interface
  declares; a number is an integer that a double holds exactly.
\<close>

record User =
  id' :: "int member"
  user_id :: "int member"

record SessionStorage =
  coulomb_sess :: "string member"

record Charger =
  station_id :: "string member"
  station_name :: "string member"

record VendorJson =
  parsed :: json
  userid :: "string member"
  user :: "User member"
  sessionStorage :: "SessionStorage member"
  access_token :: "string member"
  auth_token :: "string member"
  json_error :: "string member"
  data :: "Charger list member"

text \<open>
  A response received from the network: its status, what \<open>.text()\<close> resolves to
  (\<open>bodyText\<close>) and what \<open>.json()\<close> resolves to or rejects with. A body that parses
  to \<open>null\<close> makes the member access that follows \<open>.json()\<close> throw at the same
  place, inside the same \<open>try\<close>, so it is a case of \<open>Inl\<close> as well.
\<close>

record Response =
  status :: nat
  bodyText :: string
  json :: "thrown + VendorJson"

text \<open>\<open>res.ok\<close>: the status is in the range 200 to 299.\<close>

definition response_ok :: "Response \<Rightarrow> bool" where
  "response_ok res = (200 \<le> status res \<and> status res \<le> 299)"

datatype event =
    Fetch string RequestInit
  | Delay nat
  | ConsoleError "string list"

type_synonym trace = "event list"

type_synonym 'a io = "trace \<Rightarrow> (thrown + 'a) \<times> trace"

text \<open>
  The network: what the \<open>i\<close>-th outgoing request of the run (counted from 0), sent to
  the given URL with the given options, resolves to or rejects with.
\<close>

type_synonym network = "nat \<Rightarrow> string \<Rightarrow> RequestInit \<Rightarrow> thrown + Response"

fun is_Fetch :: "event \<Rightarrow> bool" where
  "is_Fetch (Fetch u i) = True"
| "is_Fetch e = False"

definition fetch_count :: "trace \<Rightarrow> nat" where
  "fetch_count tr = length (filter is_Fetch tr)"

definition fetch :: "network \<Rightarrow> string \<Rightarrow> RequestInit \<Rightarrow> Response io" where
  "fetch net u init tr = (net (fetch_count tr) u init, tr @ [Fetch u init])"

text \<open>\<open>delay(ms)\<close>: a timer that always resolves.\<close>

definition delay :: "nat \<Rightarrow> unit io" where
  "delay ms tr = (Inr (), tr @ [Delay ms])"

definition console_error :: "string list \<Rightarrow> unit io" where
  "console_error args tr = (Inr (), tr @ [ConsoleError args])"

text \<open>
  Sequencing of \<open>await\<close>ed steps, \<open>return\<close>, \<open>throw\<close> and \<open>try\<close>/\<open>catch\<close>.
\<close>

definition io_return :: "'a \<Rightarrow> 'a io" where
  "io_return x tr = (Inr x, tr)"

definition io_throw :: "thrown \<Rightarrow> 'a io" where
  "io_throw err tr = (Inl err, tr)"

definition io_bind :: "'a io \<Rightarrow> ('a \<Rightarrow> 'b io) \<Rightarrow> 'b io" where
  "io_bind m f tr = (case m tr of (Inl err, tr1) \<Rightarrow> (Inl err, tr1) | (Inr x, tr1) \<Rightarrow> f x tr1)"

definition io_catch :: "'a io \<Rightarrow> (thrown \<Rightarrow> 'a io) \<Rightarrow> 'a io" where
  "io_catch m handler tr =
     (case m tr of (Inl err, tr1) \<Rightarrow> handler err tr1 | (Inr x, tr1) \<Rightarrow> (Inr x, tr1))"

text \<open>\<open>await res.json()\<close>.\<close>

definition response_json :: "Response \<Rightarrow> VendorJson io" where
  "response_json res tr = (json res, tr)"

subsection \<open>Constants\<close>

definition AUTH_URL :: string where
  "AUTH_URL = ''https://na.chargepoint.com/users/validate''"

definition HOME_CHARGERS_URL :: string where
  "HOME_CHARGERS_URL = ''https://na.chargepoint.com/home/get_home_chargers''"

definition START_SESSION_URL :: string where
  "START_SESSION_URL = ''https://na.chargepoint.com/home/start_session''"

definition MAILCHANNELS_URL :: string where
  "MAILCHANNELS_URL = ''https://api.mailchannels.net/tx/v1/send''"

definition MAX_ATTEMPTS :: nat where
  "MAX_ATTEMPTS = 3"

definition BASE_DELAY_MS :: nat where
  "BASE_DELAY_MS = 2000"

subsection \<open>fetchWithRetry\<close>

text \<open>
  One pass through the \<open>try\<close>/\<open>catch\<close> of the loop body: either the function returns
  the successful response, or the loop goes on with the new \<open>lastError\<close> and
  \<open>lastResponse\<close>.
\<close>

datatype attempt_result =
    Return Response
  | Failed "thrown option" "Response option"

definition attempt_once ::
  "Response io \<Rightarrow> thrown option \<Rightarrow> Response option \<Rightarrow> trace \<Rightarrow> attempt_result \<times> trace" where
  "attempt_once requestFn lastError lastResponse tr =
     (case requestFn tr of
        (Inr res, tr1) \<Rightarrow>
          if response_ok res then (Return res, tr1)
          else (Failed (Some (ErrorObj ''Error'' (''HTTP '' @ String_nat (status res)))) (Some res), tr1)
      | (Inl err, tr1) \<Rightarrow> (Failed (Some err) lastResponse, tr1))"

text \<open>
  After the loop: the last response if there is one, else
  \<open>lastError instanceof Error ? lastError : new Error(String(lastError))\<close>; an unset
  \<open>lastError\<close> is \<open>undefined\<close>.
\<close>

fun as_Error :: "thrown option \<Rightarrow> thrown" where
  "as_Error None = ErrorObj ''Error'' ''undefined''"
| "as_Error (Some (ErrorObj name msg)) = ErrorObj name msg"
| "as_Error (Some (OtherValue s)) = ErrorObj ''Error'' s"

definition after_loop :: "thrown option \<Rightarrow> Response option \<Rightarrow> Response io" where
  "after_loop lastError lastResponse tr =
     (case lastResponse of
        Some res \<Rightarrow> (Inr res, tr)
      | None \<Rightarrow> (Inl (as_Error lastError), tr))"

function fetchWithRetry_loop ::
  "Response io \<Rightarrow> nat \<Rightarrow> thrown option \<Rightarrow> Response option \<Rightarrow> Response io" where
  "fetchWithRetry_loop requestFn attempt lastError lastResponse tr =
     (if attempt < MAX_ATTEMPTS then
        (case attempt_once requestFn lastError lastResponse tr of
           (Return res, tr1) \<Rightarrow> (Inr res, tr1)
         | (Failed lastError' lastResponse', tr1) \<Rightarrow>
             if Suc attempt \<ge> MAX_ATTEMPTS then after_loop lastError' lastResponse' tr1
             else fetchWithRetry_loop requestFn (Suc attempt) lastError' lastResponse'
                    (snd (delay (BASE_DELAY_MS * 2 ^ (Suc attempt - 1)) tr1)))
      else after_loop lastError lastResponse tr)"
  by pat_completeness auto
termination
  by (relation "measure (\<lambda>(requestFn, attempt, lastError, lastResponse, tr). MAX_ATTEMPTS - attempt)")
     auto

declare fetchWithRetry_loop.simps [simp del]

definition fetchWithRetry :: "Response io \<Rightarrow> Response io" where
  "fetchWithRetry requestFn = fetchWithRetry_loop requestFn 0 None None"

subsection \<open>Configuration\<close>

text \<open>
  The bindings of the worker. A secret that was never set is \<open>undefined\<close> at run
  time, here \<open>None\<close>.
\<close>

record Env =
  CP_USERNAME :: "string option"
  CP_PASSWORD :: "string option"
  CP_STATION_ID :: "string option"
  ALERT_EMAIL :: "string option"
  TZ_REGION :: "string option"

text \<open>A string that may be \<open>undefined\<close>: its truthiness and its conversion to a string.\<close>

definition truthy :: "string option \<Rightarrow> bool" where
  "truthy v = (case v of None \<Rightarrow> False | Some s \<Rightarrow> s \<noteq> [])"

definition String_opt :: "string option \<Rightarrow> string" where
  "String_opt v = (case v of None \<Rightarrow> ''undefined'' | Some s \<Rightarrow> s)"

text \<open>\<open>a || b\<close> for an optional string \<open>a\<close>, and \<open>String(n || b)\<close> for an optional number.\<close>

definition str_or :: "string option \<Rightarrow> string \<Rightarrow> string" where
  "str_or a b = (case a of None \<Rightarrow> b | Some s \<Rightarrow> if s = [] then b else s)"

definition num_or :: "int option \<Rightarrow> string \<Rightarrow> string" where
  "num_or a b = (case a of None \<Rightarrow> b | Some n \<Rightarrow> if n = 0 then b else String_int n)"

subsection \<open>sendAlert\<close>

definition alert_payload :: "Env \<Rightarrow> string \<Rightarrow> string \<Rightarrow> json" where
  "alert_payload env subject content_value =
     JObj [
       (''personalizations'',
          JArr [JObj [(''to'', JArr [JObj (json_member ''email'' (map_option JStr (ALERT_EMAIL env)))])]]),
       (''from'',
          JObj [(''email'', JStr ''no-reply@cph50-control.workers.dev''),
                (''name'', JStr ''CPH50 Control'')]),
       (''subject'', JStr subject),
       (''content'', JArr [JObj [(''type'', JStr ''text/plain''), (''value'', JStr content_value)]])]"

definition alert_init :: "Env \<Rightarrow> string \<Rightarrow> string \<Rightarrow> RequestInit" where
  "alert_init env subject content_value =
     \<lparr>http_method = ''POST'',
      headers = [(''content-type'', ''application/json'')],
      body = JsonBody (alert_payload env subject content_value),
      redirect = None\<rparr>"

definition sendAlert :: "network \<Rightarrow> Env \<Rightarrow> string \<Rightarrow> string \<Rightarrow> unit io" where
  "sendAlert net env subject content_value =
     io_catch
       (io_bind (fetch net MAILCHANNELS_URL (alert_init env subject content_value)) (\<lambda>res.
          if \<not> response_ok res
          then console_error [''MailChannels alert failed'', String_nat (status res)]
          else io_return ()))
       (\<lambda>err. console_error [''MailChannels alert error'', String_thrown err])"

subsection \<open>performChargeFlow\<close>

record ActionResult =
  ok :: bool
  error :: "string option"

text \<open>The subject line of every alert: a warning sign (U+26A0 U+FE0F, in UTF-8) and the text.\<close>

definition ALERT_SUBJECT :: string where
  "ALERT_SUBJECT =
     [CHR 0xE2, CHR 0x9A, CHR 0xA0, CHR 0xEF, CHR 0xB8, CHR 0x8F] @ '' URGENT: EV Charging Failed''"

definition auth_init :: "Env \<Rightarrow> RequestInit" where
  "auth_init env =
     \<lparr>http_method = ''POST'',
      headers = [(''content-type'', ''application/x-www-form-urlencoded''),
                 (''user-agent'', ''ChargePoint/6.113.0 (com.chargepoint.mobile; build:1; iOS 16.0.0)'')],
      body = FormBody [(''user_name'', String_opt (CP_USERNAME env)),
                       (''user_password'', String_opt (CP_PASSWORD env))],
      redirect = Some ''manual''\<rparr>"

definition start_init :: "Env \<Rightarrow> string \<Rightarrow> string \<Rightarrow> RequestInit" where
  "start_init env userId sessionToken =
     \<lparr>http_method = ''POST'',
      headers = [(''content-type'', ''application/x-www-form-urlencoded'')],
      body = FormBody [(''user_id'', userId),
                       (''station_id'', String_opt (CP_STATION_ID env)),
                       (''coulomb_sess'', sessionToken),
                       (''device_id'', ''cloudflare-worker'')],
      redirect = None\<rparr>"

text \<open>
  \<open>authJson.userid || String(authJson.user?.id || authJson.user?.user_id || "")\<close> and
  \<open>authJson.sessionStorage?.coulomb_sess || authJson.access_token || authJson.auth_token || ""\<close>.
\<close>

definition get_userId :: "VendorJson \<Rightarrow> string" where
  "get_userId authJson =
     str_or (defined (userid authJson))
       (case defined (user authJson) of
          None \<Rightarrow> []
        | Some u \<Rightarrow> num_or (defined (id' u)) (num_or (defined (user_id u)) []))"

definition get_coulomb_sess :: "VendorJson \<Rightarrow> string option" where
  "get_coulomb_sess authJson =
     (case defined (sessionStorage authJson) of
        None \<Rightarrow> None
      | Some st \<Rightarrow> defined (coulomb_sess st))"

definition get_sessionToken :: "VendorJson \<Rightarrow> string" where
  "get_sessionToken authJson =
     str_or (get_coulomb_sess authJson)
       (str_or (defined (access_token authJson)) (str_or (defined (auth_token authJson)) []))"

text \<open>
  The common tail of every failure branch: log the message, alert if asked to, return
  \<open>{ ok: false, error: msg }\<close>.
\<close>

definition fail_with :: "network \<Rightarrow> Env \<Rightarrow> bool \<Rightarrow> string list \<Rightarrow> string \<Rightarrow> ActionResult io" where
  "fail_with net env sendAlerts logged msg =
     io_bind (console_error logged) (\<lambda>u.
     io_bind (if sendAlerts then sendAlert net env ALERT_SUBJECT msg else io_return ()) (\<lambda>u.
     io_return \<lparr>ok = False, error = Some msg\<rparr>))"

definition auth_missing_msg :: "VendorJson \<Rightarrow> string" where
  "auth_missing_msg authJson =
     ''Auth missing user_id or session token. Got: '' @
     JSON_stringify
       (JObj (member_json ''userid'' (map_member JStr (userid authJson)) @
              [(''hasCoulomb'', JBool (truthy (get_coulomb_sess authJson)))]))"

text \<open>
  The first \<open>try\<close> block with its \<open>catch\<close>: \<open>Inl\<close> is a \<open>return\<close> out of
  \<open>performChargeFlow\<close>, \<open>Inr\<close> the \<open>userId\<close> and \<open>sessionToken\<close> the second
  block goes on with.
\<close>

definition auth_step :: "network \<Rightarrow> Env \<Rightarrow> bool \<Rightarrow> (ActionResult + string \<times> string) io" where
  "auth_step net env sendAlerts =
     io_catch
       (io_bind (fetchWithRetry (fetch net AUTH_URL (auth_init env))) (\<lambda>authRes.
        io_bind (response_json authRes) (\<lambda>authJson.
          if get_userId authJson = [] \<or> get_sessionToken authJson = []
          then io_bind
                 (fail_with net env sendAlerts [auth_missing_msg authJson] (auth_missing_msg authJson))
                 (\<lambda>result. io_return (Inl result))
          else io_return (Inr (get_userId authJson, get_sessionToken authJson)))))
       (\<lambda>err.
          io_bind
            (fail_with net env sendAlerts
               [''Auth error: '' @ String_thrown err] (''Auth error: '' @ String_thrown err))
            (\<lambda>result. io_return (Inl result)))"

text \<open>The second \<open>try\<close> block with its \<open>catch\<close>.\<close>

definition start_step :: "network \<Rightarrow> Env \<Rightarrow> bool \<Rightarrow> string \<Rightarrow> string \<Rightarrow> ActionResult io" where
  "start_step net env sendAlerts userId sessionToken =
     io_catch
       (io_bind
          (fetchWithRetry (fetch net START_SESSION_URL (start_init env userId sessionToken)))
          (\<lambda>startRes.
             if \<not> response_ok startRes
             then fail_with net env sendAlerts
                    [''Start session failed'', String_nat (status startRes), bodyText startRes]
                    (''Start session failed: '' @ String_nat (status startRes) @ [CHR 0x0A] @
                     bodyText startRes)
             else io_return \<lparr>ok = True, error = None\<rparr>))
       (\<lambda>err.
          fail_with net env sendAlerts
            [''Start session error: '' @ String_thrown err]
            (''Start session error: '' @ String_thrown err))"

definition performChargeFlow :: "network \<Rightarrow> Env \<Rightarrow> bool \<Rightarrow> ActionResult io" where
  "performChargeFlow net env sendAlerts =
     io_bind (auth_step net env sendAlerts) (\<lambda>r.
       case r of
         Inl result \<Rightarrow> io_return result
       | Inr (userId, sessionToken) \<Rightarrow> start_step net env sendAlerts userId sessionToken)"

subsection \<open>getLocalHour and the scheduled entry point\<close>

text \<open>
  The platform's clock and time-zone database: \<open>intl timeZone now\<close> is
  \<open>Number(new Intl.DateTimeFormat("en-US", { hour: "numeric", hour12: false, timeZone }).format(now))\<close>,
  the civil wall-clock hour of the instant \<open>now\<close> (milliseconds since the epoch, what
  \<open>Date.now()\<close> returned) in the zone, or the \<open>RangeError\<close> the constructor throws
  for a zone it does not know.
\<close>

type_synonym intl = "string \<Rightarrow> int \<Rightarrow> thrown + int"

definition getLocalHour :: "intl \<Rightarrow> int \<Rightarrow> string \<Rightarrow> int io" where
  "getLocalHour platform now timeZone tr = (platform timeZone now, tr)"

definition scheduled :: "network \<Rightarrow> intl \<Rightarrow> int \<Rightarrow> Env \<Rightarrow> unit io" where
  "scheduled net platform now env =
     io_bind (getLocalHour platform now (str_or (TZ_REGION env) ''America/Los_Angeles'')) (\<lambda>hour.
       if hour \<noteq> 6 then io_return ()
       else io_bind (performChargeFlow net env True) (\<lambda>result. io_return ()))"

subsection \<open>The HTTP entry point\<close>

text \<open>
  An incoming request, by the path of its URL and its method, and a response the worker
  builds with \<open>new Response(JSON.stringify(value), { status, headers })\<close>, kept with the
  value before serialisation.
\<close>

record Request =
  pathname :: string
  request_method :: string

record Reply =
  reply_status :: nat
  reply_headers :: "(string \<times> string) list"
  reply_body :: json

text \<open>
  The \<open>Response\<close> constructor throws a \<open>RangeError\<close> for a status outside 200 to 599
  and a \<open>TypeError\<close> for a body with a null-body status; the messages are the
  runtime's.
\<close>

definition new_Response :: "json \<Rightarrow> nat \<Rightarrow> Reply io" where
  "new_Response v st =
     (if st < 200 \<or> 599 < st
      then io_throw (ErrorObj ''RangeError''
             ''Responses may only be constructed with status codes in the range 200 to 599, inclusive.'')
      else if st \<in> {204, 205, 304}
      then io_throw (ErrorObj ''TypeError''
             ''Response with null body status cannot have body'')
      else io_return \<lparr>reply_status = st,
                      reply_headers = [(''content-type'', ''application/json'')],
                      reply_body = v\<rparr>)"

definition ActionResult_json :: "ActionResult \<Rightarrow> json" where
  "ActionResult_json result =
     JObj ((''ok'', JBool (ok result)) # json_member ''error'' (map_option JStr (error result)))"

definition charge_route :: "network \<Rightarrow> Env \<Rightarrow> Reply io" where
  "charge_route net env =
     (if \<not> truthy (CP_STATION_ID env)
      then new_Response (JObj [(''error'', JStr ''CP_STATION_ID not set'')]) 400
      else io_bind (performChargeFlow net env False) (\<lambda>result.
             new_Response (ActionResult_json result) (if ok result then 200 else 500)))"

text \<open>
  The values the discovery route serialises: a station of the list it returns, with the
  two members it copies, and a vendor reply it echoes, as received.
\<close>

definition Charger_json :: "Charger \<Rightarrow> json" where
  "Charger_json c =
     JObj (member_json ''station_id'' (map_member JStr (station_id c)) @
           member_json ''station_name'' (map_member JStr (station_name c)))"

definition VendorJson_json :: "VendorJson \<Rightarrow> json" where
  "VendorJson_json j = parsed j"

text \<open>\<open>env.X?.length || 0\<close>.\<close>

definition length_or_0 :: "string option \<Rightarrow> int" where
  "length_or_0 v = (case v of None \<Rightarrow> 0 | Some s \<Rightarrow> int (length s))"

text \<open>
  The two inner \<open>try\<close>/\<open>catch\<close> blocks of the discovery route: \<open>Inl\<close> is the
  response the \<open>catch\<close> returns from the handler, \<open>Inr\<close> the response of the vendor.
\<close>

definition setup_auth_fetch :: "network \<Rightarrow> Env \<Rightarrow> (Reply + Response) io" where
  "setup_auth_fetch net env =
     io_catch
       (io_bind (fetchWithRetry (fetch net AUTH_URL (auth_init env))) (\<lambda>authRes.
          io_return (Inr authRes)))
       (\<lambda>authErr.
          io_bind
            (new_Response
               (JObj [(''error'', JStr (''Auth fetch failed: '' @ String_thrown authErr)),
                      (''usernameSet'', JBool (truthy (CP_USERNAME env))),
                      (''passwordSet'', JBool (truthy (CP_PASSWORD env))),
                      (''usernameLength'', JNum (length_or_0 (CP_USERNAME env))),
                      (''passwordLength'', JNum (length_or_0 (CP_PASSWORD env)))])
               500)
            (\<lambda>reply. io_return (Inl reply)))"

definition chargers_init :: "string \<Rightarrow> string \<Rightarrow> RequestInit" where
  "chargers_init userId sessionToken =
     \<lparr>http_method = ''POST'',
      headers = [(''content-type'', ''application/x-www-form-urlencoded'')],
      body = FormBody [(''user_id'', userId), (''coulomb_sess'', sessionToken)],
      redirect = None\<rparr>"

definition setup_charger_fetch :: "network \<Rightarrow> string \<Rightarrow> string \<Rightarrow> (Reply + Response) io" where
  "setup_charger_fetch net userId sessionToken =
     io_catch
       (io_bind (fetchWithRetry (fetch net HOME_CHARGERS_URL (chargers_init userId sessionToken)))
          (\<lambda>chargerRes. io_return (Inr chargerRes)))
       (\<lambda>chargerErr.
          io_bind
            (new_Response
               (JObj [(''error'', JStr (''Charger fetch failed: '' @ String_thrown chargerErr))]) 500)
            (\<lambda>reply. io_return (Inl reply)))"

text \<open>The discovery route from the charger-list response on.\<close>

definition setup_chargers :: "Response \<Rightarrow> Reply io" where
  "setup_chargers chargerRes =
     io_bind (response_json chargerRes) (\<lambda>chargerJson.
       if length (case defined (data chargerJson) of None \<Rightarrow> [] | Some cs \<Rightarrow> cs) = 0
       then new_Response
              (JObj [(''error'', JStr ''No home chargers found''),
                     (''response'', VendorJson_json chargerJson)])
              404
       else new_Response
              (JObj [(''chargers'',
                      JArr (map Charger_json (case defined (data chargerJson) of None \<Rightarrow> [] | Some cs \<Rightarrow> cs)))])
              200)"

definition setup_route :: "network \<Rightarrow> Env \<Rightarrow> Reply io" where
  "setup_route net env =
     io_catch
       (io_bind (setup_auth_fetch net env) (\<lambda>a.
          case a of
            Inl reply \<Rightarrow> io_return reply
          | Inr authRes \<Rightarrow>
              if \<not> response_ok authRes
              then new_Response
                     (JObj [(''error'', JStr (''Auth returned '' @ String_nat (status authRes))),
                            (''status'', JNum (int (status authRes))),
                            (''responseBody'', JStr (take 500 (bodyText authRes)))])
                     (status authRes)
              else io_bind (response_json authRes) (\<lambda>authJson.
                if get_sessionToken authJson = [] \<or> truthy (defined (json_error authJson))
                then new_Response
                       (JObj [(''error'', JStr ''Auth failed or missing session token''),
                              (''authResponse'', VendorJson_json authJson)])
                       401
                else if get_userId authJson = []
                then new_Response
                       (JObj [(''error'',
                               JStr (''Could not find user_id in login response. Got: '' @
                                     JSON_stringify (VendorJson_json authJson)))])
                       500
                else io_bind
                       (setup_charger_fetch net (get_userId authJson) (get_sessionToken authJson))
                       (\<lambda>c. case c of
                               Inl reply \<Rightarrow> io_return reply
                             | Inr chargerRes \<Rightarrow> setup_chargers chargerRes))))
       (\<lambda>err. new_Response (JObj [(''error'', JStr (String_thrown err))]) 500)"

definition handle_fetch :: "network \<Rightarrow> Request \<Rightarrow> Env \<Rightarrow> Reply io" where
  "handle_fetch net request env =
     (if pathname request = ''/charge'' \<and> request_method request = ''POST''
      then charge_route net env
      else if pathname request = ''/setup'' \<and> request_method request = ''POST''
      then setup_route net env
      else new_Response (JObj [(''error'', JStr ''Not found'')]) 404)"

section \<open>Notions the properties are stated with\<close>

text \<open>An attempt fails: the request rejects, or resolves to a response that is not \<open>ok\<close>.\<close>

definition attempt_fails :: "thrown + Response \<Rightarrow> bool" where
  "attempt_fails out = (case out of Inl err \<Rightarrow> True | Inr res \<Rightarrow> \<not> response_ok res)"





text \<open>The requests a trace holds for one URL, in order.\<close>

fun request_to :: "string \<Rightarrow> event \<Rightarrow> RequestInit list" where
  "request_to u (Fetch u' init) = (if u' = u then [init] else [])"
| "request_to u e = []"

definition requests_to :: "string \<Rightarrow> trace \<Rightarrow> RequestInit list" where
  "requests_to u tr = concat (map (request_to u) tr)"

subsection \<open>Sample configurations and networks\<close>

definition sample_env :: Env where
  "sample_env =
     \<lparr>CP_USERNAME = Some ''driver@example.com'',
      CP_PASSWORD = Some ''hunter2'',
      CP_STATION_ID = Some ''9081'',
      ALERT_EMAIL = Some ''owner@example.com'',
      TZ_REGION = Some ''America/Los_Angeles''\<rparr>"

text \<open>A network on which every request fails at the transport level.\<close>

definition net_down :: network where
  "net_down i u init = Inl (ErrorObj ''TypeError'' ''fetch failed'')"



text \<open>A successful login, a login reply without any token, and replies of the other endpoints.\<close>

definition sample_auth_json :: VendorJson where
  "sample_auth_json =
     \<lparr>parsed = JObj [(''userid'', JStr ''U-77''),
                       (''sessionStorage'', JObj [(''coulomb_sess'', JStr ''tok-123'')])],
      userid = Present ''U-77'', user = Absent,
      sessionStorage = Present \<lparr>coulomb_sess = Present ''tok-123''\<rparr>,
      access_token = Absent, auth_token = Absent, json_error = Absent, data = Absent\<rparr>"

definition auth_success :: Response where
  "auth_success =
     \<lparr>status = 200, bodyText = JSON_stringify (VendorJson_json sample_auth_json),
      json = Inr sample_auth_json\<rparr>"

definition no_token_json :: VendorJson where
  "no_token_json =
     \<lparr>parsed = JObj [(''userid'', JStr ''U-77'')],
      userid = Present ''U-77'', user = Absent, sessionStorage = Absent,
      access_token = Absent, auth_token = Absent, json_error = Absent, data = Absent\<rparr>"

definition auth_no_token :: Response where
  "auth_no_token =
     \<lparr>status = 200, bodyText = JSON_stringify (VendorJson_json no_token_json),
      json = Inr no_token_json\<rparr>"

definition session_rejected :: Response where
  "session_rejected =
     \<lparr>status = 500, bodyText = ''invalid session tok-123'',
      json = Inl (ErrorObj ''SyntaxError'' ''Unexpected token i in JSON at position 0'')\<rparr>"

definition mail_accepted :: Response where
  "mail_accepted =
     \<lparr>status = 202, bodyText = [],
      json = Inl (ErrorObj ''SyntaxError'' ''Unexpected end of JSON input'')\<rparr>"

definition empty_list_json :: VendorJson where
  "empty_list_json =
     \<lparr>parsed = JObj [(''data'', JArr [])],
      userid = Absent, user = Absent, sessionStorage = Absent,
      access_token = Absent, auth_token = Absent, json_error = Absent, data = Present []\<rparr>"

definition chargers_empty :: Response where
  "chargers_empty =
     \<lparr>status = 200, bodyText = JSON_stringify (VendorJson_json empty_list_json),
      json = Inr empty_list_json\<rparr>"

text \<open>
  The login succeeds and the start of the session is refused with a page that quotes the
  session token; the mail service accepts.
\<close>

definition net_session_rejected :: network where
  "net_session_rejected i u init =
     (if u = AUTH_URL then Inr auth_success
      else if u = START_SESSION_URL then Inr session_rejected
      else Inr mail_accepted)"

text \<open>The same, with the mail service unreachable.\<close>

definition net_mail_down :: network where
  "net_mail_down i u init =
     (if u = MAILCHANNELS_URL then Inl (ErrorObj ''TypeError'' ''fetch failed'')
      else net_session_rejected i u init)"

text \<open>The login reply has no token; the login succeeds and the account has no charger.\<close>

definition net_no_token :: network where
  "net_no_token i u init =
     (if u = AUTH_URL then Inr auth_no_token else Inl (ErrorObj ''TypeError'' ''fetch failed''))"

definition net_no_chargers :: network where
  "net_no_chargers i u init =
     (if u = AUTH_URL then Inr auth_success
      else if u = HOME_CHARGERS_URL then Inr chargers_empty
      else Inl (ErrorObj ''TypeError'' ''fetch failed''))"





text \<open>The login succeeds and the session starts.\<close>

definition session_started :: Response where
  "session_started =
     \<lparr>status = 200, bodyText = ''OK'',
      json = Inl (ErrorObj ''SyntaxError'' ''Unexpected token O in JSON at position 0'')\<rparr>"

definition net_ok :: network where
  "net_ok i u init =
     (if u = AUTH_URL then Inr auth_success
      else if u = START_SESSION_URL then Inr session_started
      else Inr mail_accepted)"

definition charge_request :: Request where
  "charge_request = \<lparr>pathname = ''/charge'', request_method = ''POST''\<rparr>"

definition setup_request :: Request where
  "setup_request = \<lparr>pathname = ''/setup'', request_method = ''POST''\<rparr>"

text \<open>
  A stand-in for the platform's time-zone database that knows one zone, at a fixed
  offset of eight hours behind UTC.
\<close>

definition sample_intl :: intl where
  "sample_intl timeZone now =
     (if timeZone = ''America/Los_Angeles'' then Inr ((now div 3600000 - 8) mod 24)
      else Inl (ErrorObj ''RangeError'' (''Invalid time zone specified: '' @ timeZone)))"

subsection \<open>The result of the flow, from the answers of the vendor\<close>













section \<open>Properties\<close>

lemma defined_simps [simp]:
  "defined Absent = None" "defined Null = None" "defined (Present v) = Some v"
  by (simp_all add: defined_def)

subsection \<open>The retry loop\<close>

text \<open>With \<open>MAX_ATTEMPTS = 3\<close> the loop is at most three passes and two delays.\<close>

lemma fetchWithRetry_unroll:
  "fetchWithRetry requestFn tr =
     (case attempt_once requestFn None None tr of
        (Return res, tr1) \<Rightarrow> (Inr res, tr1)
      | (Failed e1 r1, tr1) \<Rightarrow>
          (case attempt_once requestFn e1 r1 (tr1 @ [Delay 2000]) of
             (Return res, tr2) \<Rightarrow> (Inr res, tr2)
           | (Failed e2 r2, tr2) \<Rightarrow>
               (case attempt_once requestFn e2 r2 (tr2 @ [Delay 4000]) of
                  (Return res, tr3) \<Rightarrow> (Inr res, tr3)
                | (Failed e3 r3, tr3) \<Rightarrow> after_loop e3 r3 tr3)))"
  by (simp add: fetchWithRetry_def fetchWithRetry_loop.simps [of _ 0]
      fetchWithRetry_loop.simps [of _ "Suc 0"] fetchWithRetry_loop.simps [of _ "Suc (Suc 0)"]
      MAX_ATTEMPTS_def BASE_DELAY_MS_def delay_def
      split: prod.splits attempt_result.splits)

lemma fetch_count_simps [simp]:
  "fetch_count [] = 0"
  "fetch_count (Fetch u init # tr) = Suc (fetch_count tr)"
  "fetch_count (Delay ms # tr) = fetch_count tr"
  "fetch_count (ConsoleError args # tr) = fetch_count tr"
  "fetch_count (tr @ tr') = fetch_count tr + fetch_count tr'"
  by (simp_all add: fetch_count_def)

lemma requests_to_simps [simp]:
  "requests_to u [] = []"
  "requests_to u (e # tr) = request_to u e @ requests_to u tr"
  "requests_to u (tr @ tr') = requests_to u tr @ requests_to u tr'"
  by (simp_all add: requests_to_def)

lemma attempt_once_fetch_fails:
  "attempt_fails (net (fetch_count tr) u init) \<Longrightarrow>
   attempt_once (fetch net u init) e r tr =
     (case net (fetch_count tr) u init of
        Inl err \<Rightarrow> Failed (Some err) r
      | Inr res \<Rightarrow> Failed (Some (ErrorObj ''Error'' (''HTTP '' @ String_nat (status res)))) (Some res),
      tr @ [Fetch u init])"
  by (auto simp add: attempt_once_def fetch_def attempt_fails_def split: sum.splits)

lemma three_failures:
  assumes "\<forall>k<3. attempt_fails (net (fetch_count tr + k) u init)"
  shows "attempt_fails (net (fetch_count tr) u init)"
    and "attempt_fails (net (Suc (fetch_count tr)) u init)"
    and "attempt_fails (net (Suc (Suc (fetch_count tr))) u init)"
  using assms [rule_format, of 0] assms [rule_format, of 1] assms [rule_format, of 2]
  by (simp_all add: numeral_2_eq_2)

text \<open>
  C1. When each of the three attempts of one call fails (the request rejects or the
  status is not a success), \<open>fetchWithRetry\<close> adds to the trace exactly: the request, a
  delay of 2000 ms, the request, a delay of 4000 ms, the request. So there are three
  attempts, two waits (2 s before the second attempt, 4 s before the third) and no wait
  after the last attempt.
\<close>

theorem fetchWithRetry_exhausted_trace:
  assumes "\<forall>k<3. attempt_fails (net (fetch_count tr + k) u init)"
  shows "snd (fetchWithRetry (fetch net u init) tr) =
           tr @ [Fetch u init, Delay 2000, Fetch u init, Delay 4000, Fetch u init]"
  using three_failures [of net tr u init, OF assms]
  by (simp add: fetchWithRetry_unroll attempt_once_fetch_fails after_loop_def
      split: sum.splits option.splits)

theorem fetchWithRetry_exhausted_trace_witness:
  "attempt_fails (net_down 0 AUTH_URL (auth_init sample_env)) \<and>
   attempt_fails (net_down 1 AUTH_URL (auth_init sample_env)) \<and>
   attempt_fails (net_down 2 AUTH_URL (auth_init sample_env)) \<and>
   snd (fetchWithRetry (fetch net_down AUTH_URL (auth_init sample_env)) []) =
     [Fetch AUTH_URL (auth_init sample_env), Delay 2000,
      Fetch AUTH_URL (auth_init sample_env), Delay 4000,
      Fetch AUTH_URL (auth_init sample_env)]"
  using fetchWithRetry_exhausted_trace [of net_down "[]" AUTH_URL "auth_init sample_env"]
  by (simp add: attempt_fails_def net_down_def)






subsection \<open>Traces of the retry loop and of an alert\<close>

lemma attempt_once_fetch_trace:
  "snd (attempt_once (fetch net u init) e r tr) = tr @ [Fetch u init]"
  by (simp add: attempt_once_def fetch_def split: sum.splits)

lemma fetchWithRetry_trace:
  "\<exists>evs. snd (fetchWithRetry (fetch net u init) tr) = tr @ Fetch u init # evs \<and>
         set evs \<subseteq> {Fetch u init, Delay 2000, Delay 4000}"
proof -
  have a: "\<And>e r t x t'. attempt_once (fetch net u init) e r t = (x, t') \<Longrightarrow> t' = t @ [Fetch u init]"
    using attempt_once_fetch_trace by (metis snd_conv)
  show ?thesis
    by (auto simp add: fetchWithRetry_unroll after_loop_def
        split: prod.splits attempt_result.splits option.splits dest!: a)
qed

lemma sendAlert_result: "fst (sendAlert net env subject v tr) = Inr ()"
  by (simp add: sendAlert_def io_catch_def io_bind_def fetch_def console_error_def io_return_def
      split: sum.splits prod.splits)

lemma sendAlert_trace:
  "\<exists>logs. snd (sendAlert net env subject v tr) =
            tr @ Fetch MAILCHANNELS_URL (alert_init env subject v) # logs \<and>
          (\<forall>e \<in> set logs. \<exists>args. e = ConsoleError args)"
  by (simp add: sendAlert_def io_catch_def io_bind_def fetch_def console_error_def io_return_def
      split: sum.splits prod.splits)

lemma sendAlert_cases:
  obtains logs where "sendAlert net env subject v tr =
      (Inr (), tr @ Fetch MAILCHANNELS_URL (alert_init env subject v) # logs)"
    and "\<forall>e \<in> set logs. \<exists>args. e = ConsoleError args"
  using sendAlert_result [of net env subject v tr] sendAlert_trace [of net env subject v tr]
  by (metis prod.collapse)

lemma fail_with_cases:
  obtains logs where "fail_with net env sendAlerts logged msg tr =
      (Inr \<lparr>ok = False, error = Some msg\<rparr>,
       tr @ ConsoleError logged #
         (if sendAlerts then Fetch MAILCHANNELS_URL (alert_init env ALERT_SUBJECT msg) # logs else []))"
    and "\<forall>e \<in> set logs. \<exists>args. e = ConsoleError args"
proof (cases sendAlerts)
  case True
  obtain logs where s: "sendAlert net env ALERT_SUBJECT msg (tr @ [ConsoleError logged]) =
      (Inr (), (tr @ [ConsoleError logged]) @
         Fetch MAILCHANNELS_URL (alert_init env ALERT_SUBJECT msg) # logs)"
    and l: "\<forall>e \<in> set logs. \<exists>args. e = ConsoleError args"
    by (rule sendAlert_cases)
  have "fail_with net env sendAlerts logged msg tr =
      (Inr \<lparr>ok = False, error = Some msg\<rparr>,
       tr @ ConsoleError logged #
         (if sendAlerts then Fetch MAILCHANNELS_URL (alert_init env ALERT_SUBJECT msg) # logs else []))"
    using True s by (simp add: fail_with_def io_bind_def console_error_def io_return_def)
  then show ?thesis using l that by blast
next
  case False
  have "fail_with net env sendAlerts logged msg tr =
      (Inr \<lparr>ok = False, error = Some msg\<rparr>,
       tr @ ConsoleError logged #
         (if sendAlerts then Fetch MAILCHANNELS_URL (alert_init env ALERT_SUBJECT msg) # [] else []))"
    using False by (simp add: fail_with_def io_bind_def console_error_def io_return_def)
  then show ?thesis using that [of "[]"] by simp
qed

lemma fail_with_result:
  "fst (fail_with net env sendAlerts logged msg tr) = Inr \<lparr>ok = False, error = Some msg\<rparr>"
  by (rule fail_with_cases [of net env sendAlerts logged msg tr]) simp

lemma fail_with_case:
  "(case fail_with net env sendAlerts logged msg tr of
      (Inl err, tr1) \<Rightarrow> A err tr1 | (Inr x, tr1) \<Rightarrow> B x tr1) =
   B \<lparr>ok = False, error = Some msg\<rparr> (snd (fail_with net env sendAlerts logged msg tr))"
  using fail_with_result [of net env sendAlerts logged msg tr]
  by (cases "fail_with net env sendAlerts logged msg tr") simp

lemma fail_with_pair:
  "(Inr \<lparr>ok = False, error = Some msg\<rparr>, snd (fail_with net env sendAlerts logged msg tr)) =
   fail_with net env sendAlerts logged msg tr"
  using fail_with_result [of net env sendAlerts logged msg tr]
  by (cases "fail_with net env sendAlerts logged msg tr") simp

lemma fail_with_not_Inl:
  "fail_with net env sendAlerts logged msg tr \<noteq> (Inl err, tr1)"
  using fail_with_result [of net env sendAlerts logged msg tr] by auto

lemma urls_distinct:
  "AUTH_URL \<noteq> START_SESSION_URL" "AUTH_URL \<noteq> MAILCHANNELS_URL"
  "START_SESSION_URL \<noteq> MAILCHANNELS_URL" "MAILCHANNELS_URL \<noteq> START_SESSION_URL"
  "HOME_CHARGERS_URL \<noteq> MAILCHANNELS_URL"
  by (simp_all add: AUTH_URL_def START_SESSION_URL_def MAILCHANNELS_URL_def HOME_CHARGERS_URL_def)

lemma requests_to_logs:
  "\<forall>e \<in> set logs. \<exists>args. e = ConsoleError args \<Longrightarrow> requests_to u logs = []"
  by (induction logs) auto

lemma requests_to_fetchWithRetry:
  assumes "u' \<noteq> u"
  shows "requests_to u' (snd (fetchWithRetry (fetch net u init) tr)) = requests_to u' tr"
proof -
  obtain evs where e: "snd (fetchWithRetry (fetch net u init) tr) = tr @ Fetch u init # evs"
    and s: "set evs \<subseteq> {Fetch u init, Delay 2000, Delay 4000}"
    using fetchWithRetry_trace by blast
  have "requests_to u' evs = []"
    using s assms by (induction evs) auto
  then show ?thesis using e assms by simp
qed

lemma requests_to_fail_with:
  "requests_to u (snd (fail_with net env sendAlerts logged msg tr)) =
     requests_to u tr @
     (if sendAlerts \<and> u = MAILCHANNELS_URL then [alert_init env ALERT_SUBJECT msg] else [])"
  by (rule fail_with_cases [of net env sendAlerts logged msg tr]) (simp add: requests_to_logs)

subsection \<open>The charge flow, case by case\<close>

text \<open>The flow as one case distinction over what the two retried calls give.\<close>

lemma performChargeFlow_unfold:
  "performChargeFlow net env sendAlerts tr =
     (case fetchWithRetry (fetch net AUTH_URL (auth_init env)) tr of
        (Inl err, tr1) \<Rightarrow>
          fail_with net env sendAlerts
            [''Auth error: '' @ String_thrown err] (''Auth error: '' @ String_thrown err) tr1
      | (Inr authRes, tr1) \<Rightarrow>
          (case json authRes of
             Inl err \<Rightarrow>
               fail_with net env sendAlerts
                 [''Auth error: '' @ String_thrown err] (''Auth error: '' @ String_thrown err) tr1
           | Inr authJson \<Rightarrow>
               if get_userId authJson = [] \<or> get_sessionToken authJson = []
               then fail_with net env sendAlerts
                      [auth_missing_msg authJson] (auth_missing_msg authJson) tr1
               else
                 (case fetchWithRetry
                         (fetch net START_SESSION_URL
                            (start_init env (get_userId authJson) (get_sessionToken authJson))) tr1 of
                    (Inl err, tr2) \<Rightarrow>
                      fail_with net env sendAlerts
                        [''Start session error: '' @ String_thrown err]
                        (''Start session error: '' @ String_thrown err) tr2
                  | (Inr startRes, tr2) \<Rightarrow>
                      if \<not> response_ok startRes
                      then fail_with net env sendAlerts
                             [''Start session failed'', String_nat (status startRes), bodyText startRes]
                             (''Start session failed: '' @ String_nat (status startRes) @ [CHR 0x0A] @
                              bodyText startRes) tr2
                      else (Inr \<lparr>ok = True, error = None\<rparr>, tr2))))"
  by (simp add: performChargeFlow_def auth_step_def start_step_def io_bind_def io_catch_def
      io_return_def response_json_def fail_with_case fail_with_pair fail_with_not_Inl
      split: prod.splits sum.splits)

lemma performChargeFlow_cases
  [case_names auth_error auth_unparsable auth_missing start_error start_failed started]:
  obtains
    (auth_error) err tr1 where
      "fetchWithRetry (fetch net AUTH_URL (auth_init env)) tr = (Inl err, tr1)"
      "performChargeFlow net env sendAlerts tr =
         fail_with net env sendAlerts
           [''Auth error: '' @ String_thrown err] (''Auth error: '' @ String_thrown err) tr1"
  | (auth_unparsable) authRes err tr1 where
      "fetchWithRetry (fetch net AUTH_URL (auth_init env)) tr = (Inr authRes, tr1)"
      "json authRes = Inl err"
      "performChargeFlow net env sendAlerts tr =
         fail_with net env sendAlerts
           [''Auth error: '' @ String_thrown err] (''Auth error: '' @ String_thrown err) tr1"
  | (auth_missing) authRes authJson tr1 where
      "fetchWithRetry (fetch net AUTH_URL (auth_init env)) tr = (Inr authRes, tr1)"
      "json authRes = Inr authJson"
      "get_userId authJson = [] \<or> get_sessionToken authJson = []"
      "performChargeFlow net env sendAlerts tr =
         fail_with net env sendAlerts [auth_missing_msg authJson] (auth_missing_msg authJson) tr1"
  | (start_error) authRes authJson tr1 err tr2 where
      "fetchWithRetry (fetch net AUTH_URL (auth_init env)) tr = (Inr authRes, tr1)"
      "json authRes = Inr authJson"
      "get_userId authJson \<noteq> []" "get_sessionToken authJson \<noteq> []"
      "fetchWithRetry
         (fetch net START_SESSION_URL
            (start_init env (get_userId authJson) (get_sessionToken authJson))) tr1 = (Inl err, tr2)"
      "performChargeFlow net env sendAlerts tr =
         fail_with net env sendAlerts
           [''Start session error: '' @ String_thrown err]
           (''Start session error: '' @ String_thrown err) tr2"
  | (start_failed) authRes authJson tr1 startRes tr2 where
      "fetchWithRetry (fetch net AUTH_URL (auth_init env)) tr = (Inr authRes, tr1)"
      "json authRes = Inr authJson"
      "get_userId authJson \<noteq> []" "get_sessionToken authJson \<noteq> []"
      "fetchWithRetry
         (fetch net START_SESSION_URL
            (start_init env (get_userId authJson) (get_sessionToken authJson))) tr1 = (Inr startRes, tr2)"
      "\<not> response_ok startRes"
      "performChargeFlow net env sendAlerts tr =
         fail_with net env sendAlerts
           [''Start session failed'', String_nat (status startRes), bodyText startRes]
           (''Start session failed: '' @ String_nat (status startRes) @ [CHR 0x0A] @
            bodyText startRes) tr2"
  | (started) authRes authJson tr1 startRes tr2 where
      "fetchWithRetry (fetch net AUTH_URL (auth_init env)) tr = (Inr authRes, tr1)"
      "json authRes = Inr authJson"
      "get_userId authJson \<noteq> []" "get_sessionToken authJson \<noteq> []"
      "fetchWithRetry
         (fetch net START_SESSION_URL
            (start_init env (get_userId authJson) (get_sessionToken authJson))) tr1 = (Inr startRes, tr2)"
      "response_ok startRes"
      "performChargeFlow net env sendAlerts tr = (Inr \<lparr>ok = True, error = None\<rparr>, tr2)"
proof -
  obtain ra tr1 where a: "fetchWithRetry (fetch net AUTH_URL (auth_init env)) tr = (ra, tr1)"
    by fastforce
  show ?thesis
  proof (cases ra)
    case (Inl err)
    then show ?thesis using a auth_error by (simp add: performChargeFlow_unfold)
  next
    case (Inr authRes)
    show ?thesis
    proof (cases "json authRes")
      case (Inl err)
      then show ?thesis using a Inr auth_unparsable by (simp add: performChargeFlow_unfold)
    next
      case j: (Inr authJson)
      show ?thesis
      proof (cases "get_userId authJson = [] \<or> get_sessionToken authJson = []")
        case True
        then show ?thesis
          using a Inr j auth_missing [of authRes tr1 authJson]
          by (simp add: performChargeFlow_unfold)
      next
        case False
        obtain rs tr2 where b: "fetchWithRetry (fetch net START_SESSION_URL
            (start_init env (get_userId authJson) (get_sessionToken authJson))) tr1 = (rs, tr2)"
          by fastforce
        show ?thesis
        proof (cases rs)
          case (Inl err)
          then show ?thesis
            using a Inr j False b start_error [of authRes tr1 authJson err tr2]
            by (simp add: performChargeFlow_unfold)
        next
          case r: (Inr startRes)
          show ?thesis
          proof (cases "response_ok startRes")
            case True
            then show ?thesis
              using a Inr j False b r started [of authRes tr1 authJson startRes tr2]
              by (simp add: performChargeFlow_unfold)
          next
            case nok: False
            then show ?thesis
              using a Inr j False b r start_failed [of authRes tr1 authJson startRes tr2]
              by (simp add: performChargeFlow_unfold)
          qed
        qed
      qed
    qed
  qed
qed

lemma performChargeFlow_returns:
  "\<exists>result. fst (performChargeFlow net env sendAlerts tr) = Inr result"
  by (simp add: performChargeFlow_unfold fail_with_result split: prod.splits sum.splits)

lemma fetchWithRetry_longer:
  "length tr < length (snd (fetchWithRetry (fetch net u init) tr))"
  using fetchWithRetry_trace [of net u init tr] by auto

lemma fail_with_longer:
  "length tr < length (snd (fail_with net env sendAlerts logged msg tr))"
  by (rule fail_with_cases [of net env sendAlerts logged msg tr]) simp

lemma performChargeFlow_longer:
  "length tr < length (snd (performChargeFlow net env sendAlerts tr))"
proof -
  obtain ra tr1 where a: "fetchWithRetry (fetch net AUTH_URL (auth_init env)) tr = (ra, tr1)"
    by fastforce
  have l1: "length tr < length tr1"
    using fetchWithRetry_longer [of tr net AUTH_URL "auth_init env"] a by simp
  have fw: "length tr < length (snd (fail_with net env sendAlerts logged msg tr1))" for logged msg
    using fail_with_longer [of tr1 net env sendAlerts logged msg] l1 by simp
  show ?thesis
  proof (cases ra)
    case (Inl err)
    then show ?thesis using a fw by (simp add: performChargeFlow_unfold)
  next
    case (Inr authRes)
    show ?thesis
    proof (cases "json authRes")
      case (Inl err)
      then show ?thesis using a Inr fw by (simp add: performChargeFlow_unfold)
    next
      case j: (Inr authJson)
      show ?thesis
      proof (cases "get_userId authJson = [] \<or> get_sessionToken authJson = []")
        case True
        then show ?thesis using a Inr j fw by (simp add: performChargeFlow_unfold)
      next
        case False
        obtain rs tr2 where b: "fetchWithRetry (fetch net START_SESSION_URL
            (start_init env (get_userId authJson) (get_sessionToken authJson))) tr1 = (rs, tr2)"
          by fastforce
        have l2: "length tr < length tr2"
          using fetchWithRetry_longer [of tr1 net START_SESSION_URL
              "start_init env (get_userId authJson) (get_sessionToken authJson)"] b l1 by simp
        have fw2: "length tr < length (snd (fail_with net env sendAlerts logged msg tr2))"
          for logged msg
          using fail_with_longer [of tr2 net env sendAlerts logged msg] l2 by simp
        show ?thesis
          using a Inr j False b l2 fw2
          by (simp add: performChargeFlow_unfold split: sum.splits)
      qed
    qed
  qed
qed

lemma requests_to_flow_auth:
  "fetchWithRetry (fetch net u init) tr = (r, tr1) \<Longrightarrow> u' \<noteq> u \<Longrightarrow>
   requests_to u' tr1 = requests_to u' tr"
  using requests_to_fetchWithRetry [of u' u net init tr] by simp

subsection \<open>Runs on the sample networks\<close>

lemma fetchWithRetry_net_down:
  "fetchWithRetry (fetch net_down u init) tr =
     (Inl (ErrorObj ''TypeError'' ''fetch failed''),
      tr @ [Fetch u init, Delay 2000, Fetch u init, Delay 4000, Fetch u init])"
  by (simp add: fetchWithRetry_unroll attempt_once_def fetch_def net_down_def after_loop_def)

lemma performChargeFlow_net_down:
  "performChargeFlow net_down sample_env sendAlerts [] =
     (Inr \<lparr>ok = False, error = Some ''Auth error: TypeError: fetch failed''\<rparr>,
      [Fetch AUTH_URL (auth_init sample_env), Delay 2000,
       Fetch AUTH_URL (auth_init sample_env), Delay 4000,
       Fetch AUTH_URL (auth_init sample_env),
       ConsoleError [''Auth error: TypeError: fetch failed'']] @
      (if sendAlerts
       then [Fetch MAILCHANNELS_URL
               (alert_init sample_env ALERT_SUBJECT ''Auth error: TypeError: fetch failed''),
             ConsoleError [''MailChannels alert error'', ''TypeError: fetch failed'']]
       else []))"
  by (simp add: performChargeFlow_unfold fetchWithRetry_net_down fail_with_def io_bind_def
      console_error_def io_return_def sendAlert_def io_catch_def fetch_def net_down_def)

lemma performChargeFlow_net_session_rejected:
  "performChargeFlow net_session_rejected sample_env sendAlerts [] =
     (Inr \<lparr>ok = False,
           error = Some (''Start session failed: 500'' @ [CHR 0x0A] @ ''invalid session tok-123'')\<rparr>,
      [Fetch AUTH_URL (auth_init sample_env),
       Fetch START_SESSION_URL (start_init sample_env ''U-77'' ''tok-123''), Delay 2000,
       Fetch START_SESSION_URL (start_init sample_env ''U-77'' ''tok-123''), Delay 4000,
       Fetch START_SESSION_URL (start_init sample_env ''U-77'' ''tok-123''),
       ConsoleError [''Start session failed'', ''500'', ''invalid session tok-123'']] @
      (if sendAlerts
       then [Fetch MAILCHANNELS_URL
               (alert_init sample_env ALERT_SUBJECT
                  (''Start session failed: 500'' @ [CHR 0x0A] @ ''invalid session tok-123''))]
       else []))"
proof -
  have s500: "String_nat 500 = ''500''" by code_simp
  have u: "AUTH_URL \<noteq> START_SESSION_URL" "MAILCHANNELS_URL \<noteq> AUTH_URL"
    "MAILCHANNELS_URL \<noteq> START_SESSION_URL"
    by (simp_all add: AUTH_URL_def START_SESSION_URL_def MAILCHANNELS_URL_def)
  have a: "fetchWithRetry (fetch net_session_rejected AUTH_URL init) tr =
      (Inr auth_success, tr @ [Fetch AUTH_URL init])" for init tr
    by (simp add: fetchWithRetry_unroll attempt_once_def fetch_def net_session_rejected_def
        auth_success_def response_ok_def)
  have b: "fetchWithRetry (fetch net_session_rejected START_SESSION_URL init) tr =
      (Inr session_rejected,
       tr @ [Fetch START_SESSION_URL init, Delay 2000, Fetch START_SESSION_URL init, Delay 4000,
             Fetch START_SESSION_URL init])" for init tr
    using u by (simp add: fetchWithRetry_unroll attempt_once_def fetch_def net_session_rejected_def
        session_rejected_def response_ok_def after_loop_def)
  have j: "json auth_success = Inr sample_auth_json"
    "get_userId sample_auth_json = ''U-77''" "get_sessionToken sample_auth_json = ''tok-123''"
    by (simp_all add: auth_success_def sample_auth_json_def get_userId_def get_sessionToken_def
        get_coulomb_sess_def str_or_def)
  show ?thesis
    using u
    by (simp add: performChargeFlow_unfold a b j s500 fail_with_def io_bind_def
        console_error_def io_return_def sendAlert_def io_catch_def fetch_def
        net_session_rejected_def session_rejected_def mail_accepted_def response_ok_def)
qed

lemma fetchWithRetry_net_no_token:
  "fetchWithRetry (fetch net_no_token AUTH_URL init) tr =
     (Inr auth_no_token, tr @ [Fetch AUTH_URL init])"
  by (simp add: fetchWithRetry_unroll attempt_once_def fetch_def net_no_token_def
      auth_no_token_def response_ok_def)

lemma no_token_fields:
  "json auth_no_token = Inr no_token_json" "get_sessionToken no_token_json = []"
  by (simp_all add: auth_no_token_def no_token_json_def get_sessionToken_def get_coulomb_sess_def
      str_or_def)

subsection \<open>Alerts\<close>

lemma performChargeFlow_mail:
  "\<exists>result.
     fst (performChargeFlow net env sendAlerts tr) = Inr result \<and>
     (ok result \<longleftrightarrow> error result = None) \<and>
     requests_to MAILCHANNELS_URL (snd (performChargeFlow net env sendAlerts tr)) =
       requests_to MAILCHANNELS_URL tr @
       (if sendAlerts
        then map (alert_init env ALERT_SUBJECT)
               (case error result of None \<Rightarrow> [] | Some msg \<Rightarrow> [msg])
        else [])"
proof (cases rule: performChargeFlow_cases [of net env tr sendAlerts])
  case (auth_error err tr1)
  then show ?thesis
    using requests_to_flow_auth [OF auth_error(1), of MAILCHANNELS_URL] urls_distinct
    by (simp add: fail_with_result requests_to_fail_with)
next
  case (auth_unparsable authRes err tr1)
  then show ?thesis
    using requests_to_flow_auth [OF auth_unparsable(1), of MAILCHANNELS_URL] urls_distinct
    by (simp add: fail_with_result requests_to_fail_with)
next
  case (auth_missing authRes authJson tr1)
  then show ?thesis
    using requests_to_flow_auth [OF auth_missing(1), of MAILCHANNELS_URL] urls_distinct
    by (simp add: fail_with_result requests_to_fail_with)
next
  case (start_error authRes authJson tr1 err tr2)
  then show ?thesis
    using requests_to_flow_auth [OF start_error(1), of MAILCHANNELS_URL]
      requests_to_flow_auth [OF start_error(5), of MAILCHANNELS_URL] urls_distinct
    by (simp add: fail_with_result requests_to_fail_with)
next
  case (start_failed authRes authJson tr1 startRes tr2)
  then show ?thesis
    using requests_to_flow_auth [OF start_failed(1), of MAILCHANNELS_URL]
      requests_to_flow_auth [OF start_failed(5), of MAILCHANNELS_URL] urls_distinct
    by (simp add: fail_with_result requests_to_fail_with)
next
  case (started authRes authJson tr1 startRes tr2)
  then show ?thesis
    using requests_to_flow_auth [OF started(1), of MAILCHANNELS_URL]
      requests_to_flow_auth [OF started(5), of MAILCHANNELS_URL] urls_distinct
    by simp
qed

lemma alert_init_explicit:
  "alert_init env ALERT_SUBJECT msg =
     \<lparr>http_method = ''POST'',
      headers = [(''content-type'', ''application/json'')],
      body = JsonBody
        (JObj [(''personalizations'',
                  JArr [JObj [(''to'',
                     JArr [JObj (case ALERT_EMAIL env of
                                   None \<Rightarrow> []
                                 | Some address \<Rightarrow> [(''email'', JStr address)])])]]),
               (''from'',
                  JObj [(''email'', JStr ''no-reply@cph50-control.workers.dev''),
                        (''name'', JStr ''CPH50 Control'')]),
               (''subject'',
                  JStr ([CHR 0xE2, CHR 0x9A, CHR 0xA0, CHR 0xEF, CHR 0xB8, CHR 0x8F] @
                        '' URGENT: EV Charging Failed'')),
               (''content'', JArr [JObj [(''type'', JStr ''text/plain''), (''value'', JStr msg)]])]),
      redirect = None\<rparr>"
  by (simp add: alert_init_def alert_payload_def ALERT_SUBJECT_def json_member_def
      split: option.splits)

text \<open>
  C2 (as the code has it). The flow never throws, and it sends exactly one alert when it
  fails and \<open>sendAlerts\<close> is set (the scheduled entry point), whichever step failed, the
  login or the start of the session; the body of that alert is the error string of the
  result. It sends no alert when it succeeds, and none when \<open>sendAlerts\<close> is not set
  (the on-demand route). All alerts come from the failure branches of the flow: the
  retry loop sends none of its own. The alert is a \<open>POST\<close> of a JSON payload
  addressed to \<open>ALERT_EMAIL\<close>, with the urgent subject line and the error string as
  its plain-text content.
\<close>

theorem performChargeFlow_alerts:
  "\<exists>result.
     fst (performChargeFlow net env sendAlerts tr) = Inr result \<and>
     (ok result \<longleftrightarrow> error result = None) \<and>
     requests_to MAILCHANNELS_URL (snd (performChargeFlow net env sendAlerts tr)) =
       requests_to MAILCHANNELS_URL tr @
       (if sendAlerts
        then (case error result of
                None \<Rightarrow> []
              | Some msg \<Rightarrow>
                  [\<lparr>http_method = ''POST'',
                    headers = [(''content-type'', ''application/json'')],
                    body = JsonBody
                      (JObj [(''personalizations'',
                                JArr [JObj [(''to'',
                                   JArr [JObj (case ALERT_EMAIL env of
                                                 None \<Rightarrow> []
                                               | Some address \<Rightarrow> [(''email'', JStr address)])])]]),
                             (''from'',
                                JObj [(''email'', JStr ''no-reply@cph50-control.workers.dev''),
                                      (''name'', JStr ''CPH50 Control'')]),
                             (''subject'',
                                JStr ([CHR 0xE2, CHR 0x9A, CHR 0xA0, CHR 0xEF, CHR 0xB8, CHR 0x8F] @
                                      '' URGENT: EV Charging Failed'')),
                             (''content'',
                                JArr [JObj [(''type'', JStr ''text/plain''),
                                            (''value'', JStr msg)]])]),
                    redirect = None\<rparr>])
        else [])"
proof -
  obtain result where r: "fst (performChargeFlow net env sendAlerts tr) = Inr result"
    "ok result \<longleftrightarrow> error result = None"
    "requests_to MAILCHANNELS_URL (snd (performChargeFlow net env sendAlerts tr)) =
       requests_to MAILCHANNELS_URL tr @
       (if sendAlerts
        then map (alert_init env ALERT_SUBJECT)
               (case error result of None \<Rightarrow> [] | Some msg \<Rightarrow> [msg])
        else [])"
    using performChargeFlow_mail [of net env sendAlerts tr] by auto
  show ?thesis
    by (rule exI [of _ result]) (simp add: r alert_init_explicit split: option.splits)
qed

theorem performChargeFlow_alerts_witness:
  "fst (performChargeFlow net_session_rejected sample_env True []) =
     Inr \<lparr>ok = False,
          error = Some (''Start session failed: 500'' @ [CHR 0x0A] @ ''invalid session tok-123'')\<rparr> \<and>
   requests_to MAILCHANNELS_URL (snd (performChargeFlow net_session_rejected sample_env True [])) =
     [alert_init sample_env ALERT_SUBJECT
        (''Start session failed: 500'' @ [CHR 0x0A] @ ''invalid session tok-123'')]"
  using performChargeFlow_alerts [of net_session_rejected sample_env True "[]"]
  by (simp add: performChargeFlow_net_session_rejected alert_init_explicit)

text \<open>
  As first stated, with one alert for every failed invocation and none for a failed
  login, the property does not hold: on a network that is down, the on-demand flow fails
  without an alert, and the scheduled flow alerts although the login failed and the
  session was never requested.
\<close>

theorem alert_policy_counterexample:
  "fst (performChargeFlow net_down sample_env False []) =
     Inr \<lparr>ok = False, error = Some ''Auth error: TypeError: fetch failed''\<rparr> \<and>
   requests_to MAILCHANNELS_URL (snd (performChargeFlow net_down sample_env False [])) = [] \<and>
   fst (performChargeFlow net_down sample_env True []) =
     Inr \<lparr>ok = False, error = Some ''Auth error: TypeError: fetch failed''\<rparr> \<and>
   requests_to START_SESSION_URL (snd (performChargeFlow net_down sample_env True [])) = [] \<and>
   requests_to MAILCHANNELS_URL (snd (performChargeFlow net_down sample_env True [])) =
     [alert_init sample_env ALERT_SUBJECT ''Auth error: TypeError: fetch failed'']"
  using urls_distinct by (simp add: performChargeFlow_net_down)

text \<open>
  C7. \<open>sendAlert\<close> never throws, whatever the mail service answers, and the result of
  the flow does not depend on what the mail service answers: two networks that differ
  only in their answers to requests to the mail service give the same result.
\<close>

theorem sendAlert_never_raises:
  "fst (sendAlert net env subject v tr) = Inr () \<and>
   (\<forall>net'. (\<forall>i u init. u \<noteq> MAILCHANNELS_URL \<longrightarrow> net' i u init = net i u init) \<longrightarrow>
      fst (performChargeFlow net' env sendAlerts tr) = fst (performChargeFlow net env sendAlerts tr))"
proof (intro conjI allI impI)
  show "fst (sendAlert net env subject v tr) = Inr ()" by (rule sendAlert_result)
next
  fix net' :: network
  assume agree: "\<forall>i u init. u \<noteq> MAILCHANNELS_URL \<longrightarrow> net' i u init = net i u init"
  have f: "fetch net' u init = fetch net u init" if "u \<noteq> MAILCHANNELS_URL" for u init
    using agree that by (auto simp add: fetch_def fun_eq_iff)
  show "fst (performChargeFlow net' env sendAlerts tr) = fst (performChargeFlow net env sendAlerts tr)"
    using urls_distinct
    by (simp add: performChargeFlow_unfold f fail_with_result split: prod.splits sum.splits)
qed

theorem sendAlert_never_raises_witness:
  "fst (sendAlert net_mail_down sample_env ALERT_SUBJECT ''Auth error: TypeError: fetch failed'' []) =
     Inr () \<and>
   fst (performChargeFlow net_mail_down sample_env True []) =
     fst (performChargeFlow net_session_rejected sample_env True [])"
  using sendAlert_never_raises [of net_session_rejected sample_env ALERT_SUBJECT
      "''Auth error: TypeError: fetch failed''" "[]" True, THEN conjunct2, rule_format, of net_mail_down]
    sendAlert_never_raises [of net_mail_down sample_env ALERT_SUBJECT
      "''Auth error: TypeError: fetch failed''" "[]" True, THEN conjunct1]
  by (simp add: net_mail_down_def)

subsection \<open>Failing fast after the login\<close>

text \<open>
  C5. When the login reply carries no user id or no session token (the extracted value
  is empty), the flow returns \<open>{ ok: false }\<close> with the message for the missing fields,
  and it sends no request to the start-session endpoint.
\<close>

theorem auth_fields_missing_no_action:
  assumes "fetchWithRetry (fetch net AUTH_URL (auth_init env)) tr = (Inr authRes, tr1)"
    and "json authRes = Inr authJson"
    and "get_userId authJson = [] \<or> get_sessionToken authJson = []"
  shows "fst (performChargeFlow net env sendAlerts tr) =
           Inr \<lparr>ok = False, error = Some (auth_missing_msg authJson)\<rparr> \<and>
         requests_to START_SESSION_URL (snd (performChargeFlow net env sendAlerts tr)) =
           requests_to START_SESSION_URL tr"
  using assms requests_to_flow_auth [OF assms(1), of START_SESSION_URL] urls_distinct
  by (simp add: performChargeFlow_unfold fail_with_result requests_to_fail_with)

theorem auth_fields_missing_no_action_witness:
  "fetchWithRetry (fetch net_no_token AUTH_URL (auth_init sample_env)) [] =
     (Inr auth_no_token, [Fetch AUTH_URL (auth_init sample_env)]) \<and>
   json auth_no_token = Inr no_token_json \<and>
   get_sessionToken no_token_json = [] \<and>
   fst (performChargeFlow net_no_token sample_env True []) =
     Inr \<lparr>ok = False, error = Some (auth_missing_msg no_token_json)\<rparr> \<and>
   requests_to START_SESSION_URL (snd (performChargeFlow net_no_token sample_env True [])) = []"
  using auth_fields_missing_no_action [of net_no_token sample_env "[]" auth_no_token
      "[Fetch AUTH_URL (auth_init sample_env)]" no_token_json True]
  by (simp add: fetchWithRetry_net_no_token no_token_fields)

subsection \<open>What an error string is made of\<close>
















subsection \<open>The entry points\<close>

text \<open>
  C3. The scheduled entry point runs the charge flow (with alerts) exactly when the civil
  hour of the instant in the configured time zone is 6: in that case its effects are those
  of the flow, which always sends at least the login request; for every other hour, and
  when the zone is unknown to the platform, it does nothing at all.
\<close>

theorem scheduled_runs_at_six:
  "(if platform (str_or (TZ_REGION env) ''America/Los_Angeles'') now = Inr 6
    then scheduled net platform now env tr = (Inr (), snd (performChargeFlow net env True tr))
    else snd (scheduled net platform now env tr) = tr) \<and>
   snd (performChargeFlow net env True tr) \<noteq> tr"
proof -
  obtain result where r: "fst (performChargeFlow net env True tr) = Inr result"
    using performChargeFlow_returns by blast
  have "snd (performChargeFlow net env True tr) \<noteq> tr"
    using performChargeFlow_longer [of tr net env True] by auto
  then show ?thesis
    using r
    by (cases "performChargeFlow net env True tr")
      (auto simp add: scheduled_def getLocalHour_def io_bind_def io_return_def split: sum.splits)
qed

theorem scheduled_runs_at_six_witness:
  "snd (scheduled net_down sample_intl 50400000 sample_env []) =
     snd (performChargeFlow net_down sample_env True []) \<and>
   snd (performChargeFlow net_down sample_env True []) \<noteq> [] \<and>
   snd (scheduled net_down sample_intl 46800000 sample_env []) = []"
  using scheduled_runs_at_six [of sample_intl sample_env 50400000 net_down "[]"]
    scheduled_runs_at_six [of sample_intl sample_env 46800000 net_down "[]"]
  by (simp add: sample_intl_def sample_env_def str_or_def)

lemma performChargeFlow_net_ok:
  "performChargeFlow net_ok sample_env sendAlerts [] =
     (Inr \<lparr>ok = True, error = None\<rparr>,
      [Fetch AUTH_URL (auth_init sample_env),
       Fetch START_SESSION_URL (start_init sample_env ''U-77'' ''tok-123'')])"
proof -
  have u: "AUTH_URL \<noteq> START_SESSION_URL"
    by (simp add: AUTH_URL_def START_SESSION_URL_def)
  have a: "fetchWithRetry (fetch net_ok AUTH_URL init) tr =
      (Inr auth_success, tr @ [Fetch AUTH_URL init])" for init tr
    by (simp add: fetchWithRetry_unroll attempt_once_def fetch_def net_ok_def
        auth_success_def response_ok_def)
  have b: "fetchWithRetry (fetch net_ok START_SESSION_URL init) tr =
      (Inr session_started, tr @ [Fetch START_SESSION_URL init])" for init tr
    using u by (simp add: fetchWithRetry_unroll attempt_once_def fetch_def net_ok_def
        session_started_def response_ok_def)
  have j: "json auth_success = Inr sample_auth_json"
    "get_userId sample_auth_json = ''U-77''" "get_sessionToken sample_auth_json = ''tok-123''"
    "response_ok session_started"
    by (simp_all add: auth_success_def sample_auth_json_def get_userId_def get_sessionToken_def
        get_coulomb_sess_def str_or_def session_started_def response_ok_def)
  show ?thesis
    by (simp add: performChargeFlow_unfold a b j)
qed

text \<open>
  C8. A \<open>POST\<close> to \<open>/charge\<close> with the station id configured runs the charge flow
  (without alerts, and without looking at the clock) and answers with the result as JSON:
  the object with the member \<open>ok\<close> and, when the result has an error string, the member
  \<open>error\<close>; the status is 200 when \<open>ok\<close> is true and 500 when it is false.
\<close>

theorem charge_route_reply:
  assumes "pathname request = ''/charge''" and "request_method request = ''POST''"
    and "CP_STATION_ID env = Some station" and "station \<noteq> []"
  shows "\<exists>result tr'.
           performChargeFlow net env False tr = (Inr result, tr') \<and>
           handle_fetch net request env tr =
             (Inr \<lparr>reply_status = (if ok result then 200 else 500),
                   reply_headers = [(''content-type'', ''application/json'')],
                   reply_body =
                     JObj ((''ok'', JBool (ok result)) #
                           (case error result of
                              None \<Rightarrow> []
                            | Some msg \<Rightarrow> [(''error'', JStr msg)]))\<rparr>, tr')"
proof -
  obtain result tr' where e: "performChargeFlow net env False tr = (Inr result, tr')"
    using performChargeFlow_returns [of net env False tr]
    by (cases "performChargeFlow net env False tr") auto
  have "handle_fetch net request env tr =
      (Inr \<lparr>reply_status = (if ok result then 200 else 500),
            reply_headers = [(''content-type'', ''application/json'')],
            reply_body =
              JObj ((''ok'', JBool (ok result)) #
                    (case error result of
                       None \<Rightarrow> []
                     | Some msg \<Rightarrow> [(''error'', JStr msg)]))\<rparr>, tr')"
    using assms e
    by (simp add: handle_fetch_def charge_route_def io_bind_def new_Response_def io_return_def
        ActionResult_json_def json_member_def truthy_def split: option.splits)
  then show ?thesis using e by blast
qed

theorem charge_route_reply_witness:
  "CP_STATION_ID sample_env = Some ''9081'' \<and>
   handle_fetch net_ok charge_request sample_env [] =
     (Inr \<lparr>reply_status = 200,
           reply_headers = [(''content-type'', ''application/json'')],
           reply_body = JObj [(''ok'', JBool True)]\<rparr>,
      [Fetch AUTH_URL (auth_init sample_env),
       Fetch START_SESSION_URL (start_init sample_env ''U-77'' ''tok-123'')]) \<and>
   fst (handle_fetch net_down charge_request sample_env []) =
     Inr \<lparr>reply_status = 500,
          reply_headers = [(''content-type'', ''application/json'')],
          reply_body = JObj [(''ok'', JBool False),
                             (''error'', JStr ''Auth error: TypeError: fetch failed'')]\<rparr>"
  using charge_route_reply [of charge_request sample_env "''9081''" net_ok "[]"]
    charge_route_reply [of charge_request sample_env "''9081''" net_down "[]"]
  by (simp add: charge_request_def performChargeFlow_net_ok performChargeFlow_net_down
      sample_env_def [THEN arg_cong, of CP_STATION_ID])

text \<open>
  C10. A \<open>POST\<close> to \<open>/charge\<close> when the station id is unset or empty is answered with
  status 400 and an error body, and nothing else happens: the trace is unchanged, so
  there is no login request, no start-session request and no alert.
\<close>

theorem charge_route_station_unset:
  assumes "pathname request = ''/charge''" and "request_method request = ''POST''"
    and "CP_STATION_ID env = None \<or> CP_STATION_ID env = Some []"
  shows "handle_fetch net request env tr =
           (Inr \<lparr>reply_status = 400,
                 reply_headers = [(''content-type'', ''application/json'')],
                 reply_body = JObj [(''error'', JStr ''CP_STATION_ID not set'')]\<rparr>, tr)"
  using assms
  by (auto simp add: handle_fetch_def charge_route_def truthy_def new_Response_def io_return_def)

theorem charge_route_station_unset_witness:
  "handle_fetch net_session_rejected charge_request (sample_env\<lparr>CP_STATION_ID := None\<rparr>) [] =
     (Inr \<lparr>reply_status = 400,
           reply_headers = [(''content-type'', ''application/json'')],
           reply_body = JObj [(''error'', JStr ''CP_STATION_ID not set'')]\<rparr>, [])"
  using charge_route_station_unset
    [of charge_request "sample_env\<lparr>CP_STATION_ID := None\<rparr>" net_session_rejected "[]"]
  by (simp add: charge_request_def)

subsection \<open>Discovery\<close>

lemma new_Response_500 [simp]:
  "new_Response v 500 = io_return \<lparr>reply_status = 500,
      reply_headers = [(''content-type'', ''application/json'')], reply_body = v\<rparr>"
  "new_Response v 401 = io_return \<lparr>reply_status = 401,
      reply_headers = [(''content-type'', ''application/json'')], reply_body = v\<rparr>"
  "new_Response v 404 = io_return \<lparr>reply_status = 404,
      reply_headers = [(''content-type'', ''application/json'')], reply_body = v\<rparr>"
  "new_Response v 200 = io_return \<lparr>reply_status = 200,
      reply_headers = [(''content-type'', ''application/json'')], reply_body = v\<rparr>"
  by (simp_all add: new_Response_def)

lemma new_Response_status:
  "new_Response v st tr = (Inr reply, tr') \<Longrightarrow> reply_status reply = st"
  by (auto simp add: new_Response_def io_throw_def io_return_def split: if_splits)

lemma setup_chargers_ok:
  "setup_chargers chargerRes tr = (Inr reply, tr') \<Longrightarrow> reply_status reply = 200 \<Longrightarrow>
   \<exists>cs. cs \<noteq> [] \<and> reply_body reply = JObj [(''chargers'', JArr (map Charger_json cs))]"
  by (auto simp add: setup_chargers_def io_bind_def response_json_def io_return_def
      split: sum.splits option.splits if_splits)

lemma setup_auth_fetch_Inl:
  "setup_auth_fetch net env tr = (Inr (Inl reply), tr') \<Longrightarrow> reply_status reply = 500"
  by (auto simp add: setup_auth_fetch_def io_catch_def io_bind_def io_return_def
      split: prod.splits sum.splits)

lemma setup_charger_fetch_Inl:
  "setup_charger_fetch net userId sessionToken tr = (Inr (Inl reply), tr') \<Longrightarrow>
   reply_status reply = 500"
  by (auto simp add: setup_charger_fetch_def io_catch_def io_bind_def io_return_def
      split: prod.splits sum.splits)

lemma setup_route_success:
  "\<exists>reply. fst (setup_route net env tr) = Inr reply \<and>
     (reply_status reply = 200 \<longrightarrow>
        (\<exists>cs. cs \<noteq> [] \<and> reply_body reply = JObj [(''chargers'', JArr (map Charger_json cs))]))"
  apply (simp add: setup_route_def io_catch_def io_bind_def io_return_def response_json_def
      split: prod.splits sum.splits)
  apply (auto simp add: response_ok_def
      dest!: setup_auth_fetch_Inl setup_charger_fetch_Inl new_Response_status
      dest: setup_chargers_ok split: if_splits)
  done

lemma setup_route_none_found:
  assumes "fetchWithRetry (fetch net AUTH_URL (auth_init env)) tr = (Inr authRes, tr1)"
    and "response_ok authRes" and "json authRes = Inr authJson"
    and "get_sessionToken authJson \<noteq> []" and "\<not> truthy (defined (json_error authJson))"
    and "get_userId authJson \<noteq> []"
    and "fetchWithRetry
           (fetch net HOME_CHARGERS_URL
              (chargers_init (get_userId authJson) (get_sessionToken authJson))) tr1 =
         (Inr chargerRes, tr2)"
    and "json chargerRes = Inr chargerJson"
    and "data chargerJson = Absent \<or> data chargerJson = Null \<or> data chargerJson = Present []"
  shows "setup_route net env tr =
           (Inr \<lparr>reply_status = 404,
                 reply_headers = [(''content-type'', ''application/json'')],
                 reply_body = JObj [(''error'', JStr ''No home chargers found''),
                                    (''response'', parsed chargerJson)]\<rparr>, tr2)"
  using assms
  by (auto simp add: setup_route_def setup_auth_fetch_def setup_charger_fetch_def
      setup_chargers_def io_catch_def io_bind_def io_return_def response_json_def
      VendorJson_json_def)

text \<open>
  C9. When the discovery route gets as far as the charger list and the list has no
  station (the \<open>data\<close> member is missing, \<open>null\<close> or empty), the route answers with
  status 404, the error \<open>No home chargers found\<close> and the reply as it was received.
  And whatever happens, the route answers and does not throw, and an answer with status
  200 lists at least one station.
\<close>

theorem setup_no_chargers:
  assumes "pathname request = ''/setup''" and "request_method request = ''POST''"
  shows
    "(\<forall>authRes authJson tr1 chargerRes chargerJson tr2.
        fetchWithRetry (fetch net AUTH_URL (auth_init env)) tr = (Inr authRes, tr1) \<and>
        response_ok authRes \<and> json authRes = Inr authJson \<and>
        get_sessionToken authJson \<noteq> [] \<and> \<not> truthy (defined (json_error authJson)) \<and>
        get_userId authJson \<noteq> [] \<and>
        fetchWithRetry
          (fetch net HOME_CHARGERS_URL
             (chargers_init (get_userId authJson) (get_sessionToken authJson))) tr1 =
          (Inr chargerRes, tr2) \<and>
        json chargerRes = Inr chargerJson \<and>
        (data chargerJson = Absent \<or> data chargerJson = Null \<or> data chargerJson = Present []) \<longrightarrow>
        handle_fetch net request env tr =
          (Inr \<lparr>reply_status = 404,
                reply_headers = [(''content-type'', ''application/json'')],
                reply_body = JObj [(''error'', JStr ''No home chargers found''),
                                   (''response'', parsed chargerJson)]\<rparr>, tr2)) \<and>
     (\<exists>reply. fst (handle_fetch net request env tr) = Inr reply \<and>
        (reply_status reply = 200 \<longrightarrow>
           (\<exists>cs. cs \<noteq> [] \<and>
              reply_body reply = JObj [(''chargers'', JArr (map Charger_json cs))])))"
proof -
  have h: "handle_fetch net request env tr = setup_route net env tr"
    using assms by (simp add: handle_fetch_def)
  show ?thesis
    unfolding h using setup_route_none_found [of net env tr] setup_route_success [of net env tr]
    by blast
qed

lemma fetchWithRetry_net_no_chargers:
  "fetchWithRetry (fetch net_no_chargers AUTH_URL init) tr =
     (Inr auth_success, tr @ [Fetch AUTH_URL init])"
  "fetchWithRetry (fetch net_no_chargers HOME_CHARGERS_URL init) tr =
     (Inr chargers_empty, tr @ [Fetch HOME_CHARGERS_URL init])"
  by (simp_all add: fetchWithRetry_unroll attempt_once_def fetch_def net_no_chargers_def
      auth_success_def chargers_empty_def response_ok_def AUTH_URL_def HOME_CHARGERS_URL_def)

theorem setup_no_chargers_witness:
  "handle_fetch net_no_chargers setup_request sample_env [] =
     (Inr \<lparr>reply_status = 404,
           reply_headers = [(''content-type'', ''application/json'')],
           reply_body = JObj [(''error'', JStr ''No home chargers found''),
                              (''response'', JObj [(''data'', JArr [])])]\<rparr>,
      [Fetch AUTH_URL (auth_init sample_env),
       Fetch HOME_CHARGERS_URL (chargers_init ''U-77'' ''tok-123'')])"
proof -
  have j: "json auth_success = Inr sample_auth_json" "response_ok auth_success"
    "get_userId sample_auth_json = ''U-77''" "get_sessionToken sample_auth_json = ''tok-123''"
    "\<not> truthy (defined (json_error sample_auth_json))"
    "json chargers_empty = Inr empty_list_json" "data empty_list_json = Present []"
    "parsed empty_list_json = JObj [(''data'', JArr [])]"
    by (simp_all add: auth_success_def sample_auth_json_def get_userId_def get_sessionToken_def
        get_coulomb_sess_def str_or_def truthy_def response_ok_def chargers_empty_def
        empty_list_json_def)
  show ?thesis
    using setup_no_chargers [of setup_request net_no_chargers sample_env "[]",
        THEN conjunct1, rule_format,
        of auth_success "[Fetch AUTH_URL (auth_init sample_env)]" sample_auth_json
          chargers_empty
          "[Fetch AUTH_URL (auth_init sample_env),
            Fetch HOME_CHARGERS_URL (chargers_init ''U-77'' ''tok-123'')]"
          empty_list_json]
    by (simp add: setup_request_def j fetchWithRetry_net_no_chargers)
qed

end
